theory Spec2Isabelle
  imports Complex_Main "HOL-Library.Sublist"
begin

section \<open>The table: cells, records, data frames\<close>

text \<open>
  Both dashboards read one CSV file into a pandas \<^verbatim>\<open>DataFrame\<close> and shape it with
  boolean-mask selection, \<^verbatim>\<open>dropna\<close> and \<^verbatim>\<open>pivot_table\<close>. A cell of the table is
  missing (\<^verbatim>\<open>NaN\<close>), a number or a text. Finite floating-point numbers are read as the
  rationals they denote; rounding and the infinities are outside this model. A column
  read from a CSV file holds numbers or texts, not both: one text in a column makes
  \<^verbatim>\<open>read_csv\<close> keep every value of the column as text.
\<close>

datatype cell = NaN | Num rat | Str string

text \<open>The exceptions that the shaping code and the chart calls raise.\<close>

datatype error = KeyError "string list" | ValueError | TypeError

text \<open>
  A data frame is its header and its records in file order; a record is the list of its
  cells, one per column of the header. A record shorter than the header has missing
  cells at the end, as \<^verbatim>\<open>read_csv\<close> pads it.
\<close>

record dataframe =
  columns :: "string list"
  rows :: "cell list list"

fun col_index :: "'a \<Rightarrow> 'a list \<Rightarrow> nat option" where
  "col_index c [] = None"
| "col_index c (x # xs) = (if x = c then Some 0 else map_option Suc (col_index c xs))"

definition cell_at :: "cell list \<Rightarrow> nat \<Rightarrow> cell" where
  "cell_at r i = (if i < length r then r ! i else NaN)"

text \<open>The value of column \<open>c\<close> in record \<open>r\<close> of a frame with header \<open>cols\<close>.\<close>

definition cell_of :: "string list \<Rightarrow> cell list \<Rightarrow> string \<Rightarrow> cell" where
  "cell_of cols r c = (case col_index c cols of None \<Rightarrow> NaN | Some i \<Rightarrow> cell_at r i)"

section \<open>The pandas operations the dashboards call\<close>

text \<open>\<^verbatim>\<open>df[c]\<close>: the column as a sequence, \<^verbatim>\<open>KeyError\<close> when the header lacks it.\<close>

definition getitem :: "dataframe \<Rightarrow> string \<Rightarrow> error + cell list" where
  "getitem df c =
     (case col_index c (columns df) of
        None \<Rightarrow> Inl (KeyError [c])
      | Some i \<Rightarrow> Inr (map (\<lambda>r. cell_at r i) (rows df)))"

text \<open>\<^verbatim>\<open>series == v\<close> for a text \<open>v\<close>: elementwise, a missing or numeric cell is unequal.\<close>

definition series_eq :: "cell list \<Rightarrow> string \<Rightarrow> bool list" where
  "series_eq s v = map (\<lambda>x. x = Str v) s"

text \<open>\<^verbatim>\<open>df[mask]\<close>: a new frame with the records whose mask entry is true, in order.\<close>

definition getitem_mask :: "dataframe \<Rightarrow> bool list \<Rightarrow> dataframe" where
  "getitem_mask df m = df\<lparr>rows := map fst (filter snd (zip (rows df) m))\<rparr>"

text \<open>
  \<^verbatim>\<open>df.dropna(subset=cs)\<close>: \<^verbatim>\<open>KeyError\<close> listing the names of \<open>cs\<close> the header lacks;
  otherwise a new frame without the records that miss a value in a column of \<open>cs\<close>.
\<close>

definition dropna :: "dataframe \<Rightarrow> string list \<Rightarrow> error + dataframe" where
  "dropna df cs =
     (let absent = filter (\<lambda>c. c \<notin> set (columns df)) cs
      in if absent \<noteq> [] then Inl (KeyError absent)
         else Inr (df\<lparr>rows := filter (\<lambda>r. \<forall>c\<in>set cs. cell_of (columns df) r c \<noteq> NaN) (rows df)\<rparr>))"

text \<open>\<^verbatim>\<open>df.dropna()\<close>: without the records that miss a value in any column.\<close>

definition dropna_all :: "dataframe \<Rightarrow> dataframe" where
  "dropna_all df =
     df\<lparr>rows := filter (\<lambda>r. \<forall>c\<in>set (columns df). cell_of (columns df) r c \<noteq> NaN) (rows df)\<rparr>"

section \<open>The section view\<close>

text \<open>
  Every section of \<^verbatim>\<open>xai_powered_analytics_dashboard.py\<close> starts with
  \<^verbatim>\<open>data[data["Component"] == label].dropna(subset=fields)\<close>.
\<close>

definition selectSection :: "dataframe \<Rightarrow> string \<Rightarrow> string list \<Rightarrow> error + dataframe" where
  "selectSection df label required =
     (case getitem df ''Component'' of
        Inl e \<Rightarrow> Inl e
      | Inr s \<Rightarrow> dropna (getitem_mask df (series_eq s label)) required)"

section \<open>Pivot tables\<close>

text \<open>
  A pivot table: the labels of its rows, the labels of its columns, and its cells row by
  row. \<^verbatim>\<open>pivot_table\<close> groups with sorted keys; numbers order by value, texts by
  their characters, and where a key column holds both, pandas puts numbers first.
\<close>

record pivot =
  pt_index :: "cell list"
  pt_columns :: "cell list"
  pt_values :: "cell list list"

fun str_le :: "string \<Rightarrow> string \<Rightarrow> bool" where
  "str_le [] t = True"
| "str_le (a # s) [] = False"
| "str_le (a # s) (b # t) =
     ((of_char a :: nat) < of_char b \<or> ((of_char a :: nat) = of_char b \<and> str_le s t))"

fun cell_le :: "cell \<Rightarrow> cell \<Rightarrow> bool" where
  "cell_le (Num a) (Num b) = (a \<le> b)"
| "cell_le (Num a) _ = True"
| "cell_le (Str s) (Num b) = False"
| "cell_le (Str s) (Str t) = str_le s t"
| "cell_le (Str s) NaN = True"
| "cell_le NaN NaN = True"
| "cell_le NaN _ = False"

fun insort_cell :: "cell \<Rightarrow> cell list \<Rightarrow> cell list" where
  "insort_cell k [] = [k]"
| "insort_cell k (x # xs) = (if cell_le k x then k # x # xs else x # insort_cell k xs)"

definition sort_cells :: "cell list \<Rightarrow> cell list" where
  "sort_cells ks = foldr insort_cell ks []"

text \<open>The sorted distinct keys of a grouping.\<close>

definition group_keys :: "cell list \<Rightarrow> cell list" where
  "group_keys ks = sort_cells (remdups ks)"

fun is_num :: "cell \<Rightarrow> bool" where
  "is_num (Num q) = True"
| "is_num _ = False"

fun is_str :: "cell \<Rightarrow> bool" where
  "is_str (Str s) = True"
| "is_str _ = False"

text \<open>
  \<^verbatim>\<open>pivot_table\<close> works on the two columns it is given: per record, the pair of its
  cells in them.
\<close>

definition field_pairs :: "dataframe \<Rightarrow> string \<Rightarrow> string \<Rightarrow> (cell \<times> cell) list" where
  "field_pairs df c1 c2 =
     map (\<lambda>r. (cell_of (columns df) r c1, cell_of (columns df) r c2)) (rows df)"

text \<open>
  The key pairs of the records that \<^verbatim>\<open>groupby\<close> keeps: a record with a missing key
  belongs to no group.
\<close>

definition key_pairs :: "dataframe \<Rightarrow> string \<Rightarrow> string \<Rightarrow> (cell \<times> cell) list" where
  "key_pairs df rf cf = filter (\<lambda>p. fst p \<noteq> NaN \<and> snd p \<noteq> NaN) (field_pairs df rf cf)"

text \<open>A group size after \<^verbatim>\<open>unstack\<close>: a combination of keys with no record is a missing cell.\<close>

definition size_cell :: "nat \<Rightarrow> cell" where
  "size_cell n = (if n = 0 then NaN else Num (of_nat n))"

text \<open>
  \<^verbatim>\<open>df.pivot_table(index=rf, columns=cf, aggfunc="size")\<close>, the heatmap table of
  \<^verbatim>\<open>_1.py\<close>. The source names two different columns; one column in both roles is not
  covered and is reported as \<open>ValueError\<close>. Column labels are sorted as an index, which
  fails (\<open>TypeError\<close>) when numbers and texts are mixed.
\<close>

definition pivot_size :: "dataframe \<Rightarrow> string \<Rightarrow> string \<Rightarrow> error + pivot" where
  "pivot_size df rf cf =
     (if rf \<notin> set (columns df) then Inl (KeyError [rf])
      else if cf \<notin> set (columns df) then Inl (KeyError [cf])
      else if rf = cf then Inl ValueError
      else
        let ps = key_pairs df rf cf;
            idx = group_keys (map fst ps);
            cls = group_keys (map snd ps)
        in if (\<exists>k\<in>set cls. is_num k) \<and> (\<exists>k\<in>set cls. is_str k) then Inl TypeError
           else Inr \<lparr>pt_index = idx, pt_columns = cls,
                     pt_values = map (\<lambda>a. map (\<lambda>b. size_cell (count_list ps (a, b))) cls) idx\<rparr>)"

text \<open>The sum of the cells of a table, as \<^verbatim>\<open>sum\<close> of pandas takes it: a missing cell is skipped.\<close>

fun cell_num :: "cell \<Rightarrow> rat" where
  "cell_num (Num q) = q"
| "cell_num _ = 0"

definition pivot_sum :: "pivot \<Rightarrow> rat" where
  "pivot_sum t = sum_list (map cell_num (concat (pt_values t)))"

text \<open>The cell of a table at a row label and a column label, when both exist.\<close>

definition pivot_cell :: "pivot \<Rightarrow> cell \<Rightarrow> cell \<Rightarrow> cell option" where
  "pivot_cell t a b =
     (case (col_index a (pt_index t), col_index b (pt_columns t)) of
        (Some i, Some j) \<Rightarrow> Some (pt_values t ! i ! j)
      | _ \<Rightarrow> None)"

text \<open>
  The \<^verbatim>\<open>first\<close> aggregation of the group with key \<open>k\<close>, on (key, value) pairs: the
  value of the first record of the group whose value is not missing, and missing when
  there is none.
\<close>

definition group_first :: "(cell \<times> cell) list \<Rightarrow> cell \<Rightarrow> cell" where
  "group_first ps k =
     (case filter (\<lambda>p. fst p = k \<and> snd p \<noteq> NaN) ps of
        [] \<Rightarrow> NaN
      | p # _ \<Rightarrow> snd p)"

text \<open>
  \<^verbatim>\<open>df.pivot_table(values=vf, index=rf, aggfunc='first')\<close>, the heatmap table of
  \<^verbatim>\<open>real_world_scenario_section\<close>. The values column is looked up first, then the
  frame is grouped by \<open>rf\<close>; a group whose aggregate is missing is dropped, and so is
  a column with no value at all: a table with no row has no column either. The source
  names two different columns; one column in both roles is not covered and is reported
  as \<open>ValueError\<close>.
\<close>

definition pivot_first :: "dataframe \<Rightarrow> string \<Rightarrow> string \<Rightarrow> error + pivot" where
  "pivot_first df rf vf =
     (if vf \<notin> set (columns df) then Inl (KeyError [vf])
      else if rf \<notin> set (columns df) then Inl (KeyError [rf])
      else if rf = vf then Inl ValueError
      else
        let ps = field_pairs df rf vf;
            ks = group_keys (filter (\<lambda>k. k \<noteq> NaN) (map fst ps));
            kept = filter (\<lambda>k. group_first ps k \<noteq> NaN) ks
        in Inr \<lparr>pt_index = kept, pt_columns = (if kept = [] then [] else [Str vf]),
                  pt_values = map (\<lambda>k. [group_first ps k]) kept\<rparr>)"

section \<open>Scenario sliders\<close>

text \<open>
  \<^verbatim>\<open>int(x)\<close> on a cell value. A number is truncated toward zero; a text is read as a
  decimal literal (surrounding white space, a sign, digits with single underscores
  between them); anything else raises \<^verbatim>\<open>ValueError\<close>. Texts are ASCII here and the
  interpreter's limit on the number of digits is not modelled.
\<close>

definition py_space :: "char \<Rightarrow> bool" where
  "py_space c = ((of_char c :: nat) \<in> {9, 10, 11, 12, 13, 28, 29, 30, 31, 32})"

definition strip :: "string \<Rightarrow> string" where
  "strip s = rev (dropWhile py_space (rev (dropWhile py_space s)))"

definition is_digit :: "char \<Rightarrow> bool" where
  "is_digit c = (48 \<le> (of_char c :: nat) \<and> (of_char c :: nat) \<le> 57)"

fun digits_value :: "string \<Rightarrow> nat \<Rightarrow> nat option" where
  "digits_value [] acc = Some acc"
| "digits_value (c # cs) acc =
     (if is_digit c then digits_value cs (10 * acc + (of_char c - 48))
      else if c = CHR ''_'' \<and> cs \<noteq> [] \<and> is_digit (hd cs) then digits_value cs acc
      else None)"

definition unsigned_of_str :: "string \<Rightarrow> error + int" where
  "unsigned_of_str s =
     (case s of
        [] \<Rightarrow> Inl ValueError
      | c # cs \<Rightarrow>
          if is_digit c
          then (case digits_value s 0 of None \<Rightarrow> Inl ValueError | Some n \<Rightarrow> Inr (int n))
          else Inl ValueError)"

definition int_of_str :: "string \<Rightarrow> error + int" where
  "int_of_str s =
     (case strip s of
        [] \<Rightarrow> Inl ValueError
      | c # cs \<Rightarrow>
          if c = CHR ''-'' then map_sum id uminus (unsigned_of_str cs)
          else if c = CHR ''+'' then unsigned_of_str cs
          else unsigned_of_str (c # cs))"

fun py_int :: "cell \<Rightarrow> error + int" where
  "py_int (Num q) = Inr (if 0 \<le> q then \<lfloor>q\<rfloor> else \<lceil>q\<rceil>)"
| "py_int (Str s) = int_of_str s"
| "py_int NaN = Inl ValueError"

text \<open>
  What \<^verbatim>\<open>st.slider(factor, min_value=0, max_value=100, value=int(default))\<close> asks the
  dashboard framework for: a slider with this label, these bounds and this initial
  value, the value the slider has when it is first rendered.
\<close>

record slider =
  slider_label :: cell
  min_value :: int
  max_value :: int
  slider_value :: int

definition seed_slider :: "cell \<Rightarrow> cell \<Rightarrow> error + slider" where
  "seed_slider factor dflt =
     (case py_int dflt of
        Inl e \<Rightarrow> Inl e
      | Inr v \<Rightarrow> Inr \<lparr>slider_label = factor, min_value = 0, max_value = 100, slider_value = v\<rparr>)"

text \<open>The loop over \<^verbatim>\<open>zip(factors, default_values)\<close>: the first exception ends it.\<close>

fun seed_sliders :: "(cell \<times> cell) list \<Rightarrow> error + slider list" where
  "seed_sliders [] = Inr []"
| "seed_sliders ((factor, dflt) # rest) =
     (case seed_slider factor dflt of
        Inl e \<Rightarrow> Inl e
      | Inr s \<Rightarrow> (case seed_sliders rest of Inl e \<Rightarrow> Inl e | Inr ss \<Rightarrow> Inr (s # ss)))"

text \<open>The three sliders of \<^verbatim>\<open>_1.py\<close>, with their literal initial values.\<close>

definition script_sliders :: "slider list" where
  "script_sliders =
     [\<lparr>slider_label = Str ''Loan-to-Income Ratio'', min_value = 0, max_value = 100, slider_value = 35\<rparr>,
      \<lparr>slider_label = Str ''Payment History Impact'', min_value = 0, max_value = 100, slider_value = 30\<rparr>,
      \<lparr>slider_label = Str ''Credit Utilization Impact'', min_value = 0, max_value = 100, slider_value = 20\<rparr>]"

section \<open>The chart calls\<close>

text \<open>
  The charts are drawn by matplotlib and seaborn. What the model keeps of a chart call
  is whether it raises on the arguments the source hands it: \<open>None\<close> when the chart is
  drawn, the exception otherwise.
\<close>

text \<open>
  \<^verbatim>\<open>float(x)\<close> on a text, as numpy converts the cells of an untyped column: a decimal
  literal with an optional fraction and exponent, or an infinity or not-a-number.
\<close>

datatype pyfloat = Finite rat | NotFinite

definition before_sep :: "(char \<Rightarrow> bool) \<Rightarrow> string \<Rightarrow> string" where
  "before_sep P s = takeWhile (\<lambda>c. \<not> P c) s"

definition after_sep :: "(char \<Rightarrow> bool) \<Rightarrow> string \<Rightarrow> string option" where
  "after_sep P s = (case dropWhile (\<lambda>c. \<not> P c) s of [] \<Rightarrow> None | c # r \<Rightarrow> Some r)"

definition digit_part :: "string \<Rightarrow> nat option" where
  "digit_part s =
     (case s of [] \<Rightarrow> None | c # cs \<Rightarrow> if is_digit c then digits_value s 0 else None)"

definition exponent_of_str :: "string \<Rightarrow> int option" where
  "exponent_of_str s =
     (case s of
        [] \<Rightarrow> None
      | c # cs \<Rightarrow>
          if c = CHR ''-'' then map_option (\<lambda>n. - int n) (digit_part cs)
          else if c = CHR ''+'' then map_option int (digit_part cs)
          else map_option int (digit_part s))"

definition pow10 :: "int \<Rightarrow> rat" where
  "pow10 e = (if 0 \<le> e then 10 ^ nat e else 1 / 10 ^ nat (- e))"

definition is_exp_mark :: "char \<Rightarrow> bool" where
  "is_exp_mark c = (c = CHR ''e'' \<or> c = CHR ''E'')"

definition is_point :: "char \<Rightarrow> bool" where
  "is_point c = (c = CHR ''.'')"

definition decimal_of_str :: "string \<Rightarrow> rat option" where
  "decimal_of_str s =
     (let mant = before_sep is_exp_mark s;
          ip = before_sep is_point mant;
          whole = (if ip = [] then Some 0 else digit_part ip);
          frac =
            (case after_sep is_point mant of
               None \<Rightarrow> (if ip = [] then None else Some 0)
             | Some fp \<Rightarrow>
                 if fp = [] then (if ip = [] then None else Some 0)
                 else map_option (\<lambda>n. of_nat n / 10 ^ length (filter is_digit fp)) (digit_part fp));
          ex = (case after_sep is_exp_mark s of None \<Rightarrow> Some 0 | Some e \<Rightarrow> exponent_of_str e)
      in case (whole, frac, ex) of
           (Some w, Some f, Some e) \<Rightarrow> Some ((of_nat w + f) * pow10 e)
         | _ \<Rightarrow> None)"

text \<open>A text against a lower-case word, letter case ignored.\<close>

definition lower_code :: "char \<Rightarrow> nat" where
  "lower_code c = (if 65 \<le> (of_char c :: nat) \<and> (of_char c :: nat) \<le> 90 then of_char c + 32 else of_char c)"

definition ci_match :: "string \<Rightarrow> string \<Rightarrow> bool" where
  "ci_match s w = (map lower_code s = map of_char w)"

definition unsigned_float :: "string \<Rightarrow> pyfloat option" where
  "unsigned_float s =
     (if ci_match s ''inf'' \<or> ci_match s ''infinity'' \<or> ci_match s ''nan'' then Some NotFinite
      else map_option Finite (decimal_of_str s))"

fun negate :: "pyfloat \<Rightarrow> pyfloat" where
  "negate (Finite q) = Finite (- q)"
| "negate NotFinite = NotFinite"

definition float_of_str :: "string \<Rightarrow> pyfloat option" where
  "float_of_str s =
     (case strip s of
        [] \<Rightarrow> None
      | c # cs \<Rightarrow>
          if c = CHR ''-'' then map_option negate (unsigned_float cs)
          else if c = CHR ''+'' then unsigned_float cs
          else unsigned_float (c # cs))"

text \<open>The cell as a float: \<open>None\<close> when the conversion raises.\<close>

fun np_float :: "cell \<Rightarrow> pyfloat option" where
  "np_float (Num q) = Some (Finite q)"
| "np_float (Str s) = float_of_str s"
| "np_float NaN = Some NotFinite"

text \<open>The pie chart of the data sources: its sizes, its labels and the number of colours.\<close>

record pie =
  pie_sizes :: "cell list"
  pie_labels :: "cell list"
  pie_colors :: nat

text \<open>
  \<^verbatim>\<open>ax.pie(sizes, labels=labels, ..., colors=colors)\<close>: the sizes are converted to
  floats and the wedges are their shares of the sum. The call raises \<^verbatim>\<open>ValueError\<close>
  for a size that is no number, not finite or negative, and when the sizes sum to
  zero, as the sizes of no record do.
\<close>

fun bad_size :: "pyfloat option \<Rightarrow> bool" where
  "bad_size None = True"
| "bad_size (Some NotFinite) = True"
| "bad_size (Some (Finite q)) = (q < 0)"

fun size_value :: "pyfloat option \<Rightarrow> rat" where
  "size_value (Some (Finite q)) = q"
| "size_value _ = 0"

definition ax_pie :: "pie \<Rightarrow> error option" where
  "ax_pie p =
     (let xs = map np_float (pie_sizes p)
      in if (\<exists>x\<in>set xs. bad_size x) \<or> sum_list (map size_value xs) = 0
         then Some ValueError else None)"

text \<open>
  \<^verbatim>\<open>sns.heatmap(table, annot=True, ...)\<close>: the colour range is the least and the
  greatest cell as floats, so a table with no cell raises \<^verbatim>\<open>ValueError\<close>, and so does
  a text cell that is no number; a table of texts that are numbers is then refused by
  the colour mesh with \<^verbatim>\<open>TypeError\<close>. Missing cells are masked.
\<close>

definition sns_heatmap :: "pivot \<Rightarrow> error option" where
  "sns_heatmap t =
     (let vs = concat (pt_values t)
      in if vs = [] then Some ValueError
         else if \<exists>v\<in>set vs. is_str v \<and> np_float v = None then Some ValueError
         else if \<exists>v\<in>set vs. is_str v then Some TypeError
         else None)"

text \<open>
  \<^verbatim>\<open>sns.barplot(data=view, x=x, y=y, ...)\<close>: a name that is no column of the view is
  refused with \<^verbatim>\<open>ValueError\<close>.
\<close>

definition sns_barplot :: "dataframe \<Rightarrow> string \<Rightarrow> string \<Rightarrow> error option" where
  "sns_barplot view x y =
     (if x \<notin> set (columns view) \<or> y \<notin> set (columns view) then Some ValueError else None)"

section \<open>The sections of \<^verbatim>\<open>xai_powered_analytics_dashboard.py\<close>\<close>

text \<open>
  Each section function shapes its view and hands it to a chart call; the model returns
  what the chart is given when the call returns, and the exception when it raises. The
  bar and line charts of the first and the third section name only columns that
  \<^verbatim>\<open>dropna\<close> has just required of the view.
\<close>

definition model_interpretability_section :: "dataframe \<Rightarrow> error + dataframe" where
  "model_interpretability_section data =
     selectSection data ''Model Interpretability'' [''Feature'', ''SHAP Value'', ''LIME Weight'']"

text \<open>The arguments of the pie chart: two columns of the view and a colour per label.\<close>

definition pie_of_view :: "dataframe \<Rightarrow> error + pie" where
  "pie_of_view source_data =
     (case getitem source_data ''Source'' of
        Inl e \<Rightarrow> Inl e
      | Inr labels \<Rightarrow>
          (case getitem source_data ''Percentage Contribution (%)'' of
             Inl e \<Rightarrow> Inl e
           | Inr sizes \<Rightarrow> Inr \<lparr>pie_sizes = sizes, pie_labels = labels, pie_colors = length labels\<rparr>))"

definition pie_chart :: "dataframe \<Rightarrow> error + pie" where
  "pie_chart source_data =
     (case pie_of_view source_data of
        Inl e \<Rightarrow> Inl e
      | Inr p \<Rightarrow> (case ax_pie p of Some e \<Rightarrow> Inl e | None \<Rightarrow> Inr p))"

definition data_sources_section :: "dataframe \<Rightarrow> error + pie" where
  "data_sources_section data =
     (case selectSection data ''Data Sources'' [''Source'', ''Percentage Contribution (%)''] of
        Inl e \<Rightarrow> Inl e
      | Inr source_data \<Rightarrow> pie_chart source_data)"

definition key_metrics_section :: "dataframe \<Rightarrow> error + dataframe" where
  "key_metrics_section data =
     selectSection data ''Key Metrics'' [''Model'', ''Accuracy (%)'', ''Compliance Rate (%)'']"

text \<open>
  The heatmap table and the sliders of the scenario section: the table is drawn before
  the sliders are seeded.
\<close>

definition scenario_of_view :: "dataframe \<Rightarrow> error + pivot \<times> slider list" where
  "scenario_of_view scenario_data =
     (case pivot_first scenario_data ''Risk Factor'' ''Risk Score Contribution (%)'' of
        Inl e \<Rightarrow> Inl e
      | Inr pivot_table \<Rightarrow>
          (case sns_heatmap pivot_table of
             Some e \<Rightarrow> Inl e
           | None \<Rightarrow>
               (case getitem scenario_data ''Risk Factor'' of
                  Inl e \<Rightarrow> Inl e
                | Inr factors \<Rightarrow>
                    (case getitem scenario_data ''Risk Score Contribution (%)'' of
                       Inl e \<Rightarrow> Inl e
                     | Inr default_values \<Rightarrow>
                         (case seed_sliders (zip factors default_values) of
                            Inl e \<Rightarrow> Inl e
                          | Inr inputs \<Rightarrow> Inr (pivot_table, inputs))))))"

definition real_world_scenario_section :: "dataframe \<Rightarrow> error + pivot \<times> slider list" where
  "real_world_scenario_section data =
     (case selectSection data ''Real-World Scenario''
             [''Risk Factor'', ''Risk Score Contribution (%)'', ''Correlation''] of
        Inl e \<Rightarrow> Inl e
      | Inr scenario_data \<Rightarrow> scenario_of_view scenario_data)"

section \<open>The views of \<^verbatim>\<open>_1.py\<close>\<close>

text \<open>
  The script shapes the same file at module level: the first view is selected without
  dropping, the second drops a record that misses any value, the last two drop without
  selecting a section. Its bar chart and its heatmap are the seaborn calls above.
\<close>

definition select_component :: "dataframe \<Rightarrow> string \<Rightarrow> error + dataframe" where
  "select_component data label =
     (case getitem data ''Component'' of
        Inl e \<Rightarrow> Inl e
      | Inr s \<Rightarrow> Inr (getitem_mask data (series_eq s label)))"

definition model_data :: "dataframe \<Rightarrow> error + dataframe" where
  "model_data data = select_component data ''Model Interpretability''"

definition shap_barplot :: "dataframe \<Rightarrow> error + dataframe" where
  "shap_barplot view =
     (case sns_barplot view ''SHAP Value'' ''Feature'' of Some e \<Rightarrow> Inl e | None \<Rightarrow> Inr view)"

fun drop_duplicates :: "cell list \<Rightarrow> cell list" where
  "drop_duplicates [] = []"
| "drop_duplicates (x # xs) = x # drop_duplicates (filter (\<lambda>y. y \<noteq> x) xs)"

definition source_data :: "dataframe \<Rightarrow> error + dataframe" where
  "source_data data = map_sum id dropna_all (select_component data ''Data Sources'')"

definition sankey_labels :: "dataframe \<Rightarrow> error + cell list" where
  "sankey_labels view = map_sum id drop_duplicates (getitem view ''Source'')"

definition metrics_data :: "dataframe \<Rightarrow> error + dataframe" where
  "metrics_data data = dropna data [''Accuracy'', ''Compliance Rate'']"

text \<open>\<^verbatim>\<open>view.set_index("Model")[c]\<close>: the column \<open>c\<close> labelled by the model names.\<close>

definition metric_series :: "string \<Rightarrow> dataframe \<Rightarrow> error + (cell \<times> cell) list" where
  "metric_series c view =
     (case getitem view ''Model'' of
        Inl e \<Rightarrow> Inl e
      | Inr models \<Rightarrow>
          (if c = ''Model'' then Inl (KeyError [c])
           else case getitem view c of Inl e \<Rightarrow> Inl e | Inr vs \<Rightarrow> Inr (zip models vs)))"

definition scenario_data :: "dataframe \<Rightarrow> error + dataframe" where
  "scenario_data data = dropna data [''Risk Factor'', ''Correlation'']"

definition scenario_heatmap :: "dataframe \<Rightarrow> error + pivot" where
  "scenario_heatmap view =
     (case pivot_size view ''Risk Factor'' ''Correlation'' of
        Inl e \<Rightarrow> Inl e
      | Inr t \<Rightarrow> (case sns_heatmap t of Some e \<Rightarrow> Inl e | None \<Rightarrow> Inr t))"

section \<open>The data frames as objects\<close>

text \<open>
  pandas frames are objects: \<^verbatim>\<open>data[mask]\<close>, \<^verbatim>\<open>dropna\<close> and \<^verbatim>\<open>pivot_table\<close> build
  a new object and leave their argument alone (no call of the source passes
  \<^verbatim>\<open>inplace=True\<close> or assigns into a frame). The store holds the frame objects, an
  address is a position in it, and a computation takes the store and returns its
  result (or the exception) with the store it leaves.
\<close>

type_synonym addr = nat
type_synonym store = "dataframe list"
type_synonym 'a prog = "store \<Rightarrow> (error + 'a) \<times> store"

text \<open>An operation that reads the frame at \<open>a\<close> and builds a new frame object.\<close>

definition new_frame :: "(dataframe \<Rightarrow> error + dataframe) \<Rightarrow> addr \<Rightarrow> addr prog" where
  "new_frame f a st =
     (case f (st ! a) of
        Inl e \<Rightarrow> (Inl e, st)
      | Inr df \<Rightarrow> (Inr (length st), st @ [df]))"

text \<open>An operation that reads the frame at \<open>a\<close> and returns a plain value.\<close>

definition read_frame :: "(dataframe \<Rightarrow> error + 'a) \<Rightarrow> addr \<Rightarrow> 'a prog" where
  "read_frame f a st = (f (st ! a), st)"

text \<open>Sequencing: an exception ends the computation.\<close>

definition then_do :: "'a prog \<Rightarrow> ('a \<Rightarrow> 'b prog) \<Rightarrow> 'b prog" where
  "then_do p k st =
     (case p st of
        (Inl e, st') \<Rightarrow> (Inl e, st')
      | (Inr x, st') \<Rightarrow> k x st')"

definition select_component_obj :: "addr \<Rightarrow> string \<Rightarrow> addr prog" where
  "select_component_obj a label = new_frame (\<lambda>df. select_component df label) a"

definition selectSection_obj :: "addr \<Rightarrow> string \<Rightarrow> string list \<Rightarrow> addr prog" where
  "selectSection_obj a label required =
     then_do (select_component_obj a label) (new_frame (\<lambda>df. dropna df required))"

definition model_interpretability_section_obj :: "addr \<Rightarrow> dataframe prog" where
  "model_interpretability_section_obj a =
     then_do (selectSection_obj a ''Model Interpretability'' [''Feature'', ''SHAP Value'', ''LIME Weight''])
       (read_frame Inr)"

definition data_sources_section_obj :: "addr \<Rightarrow> pie prog" where
  "data_sources_section_obj a =
     then_do (selectSection_obj a ''Data Sources'' [''Source'', ''Percentage Contribution (%)''])
       (read_frame pie_chart)"

definition key_metrics_section_obj :: "addr \<Rightarrow> dataframe prog" where
  "key_metrics_section_obj a =
     then_do (selectSection_obj a ''Key Metrics'' [''Model'', ''Accuracy (%)'', ''Compliance Rate (%)''])
       (read_frame Inr)"

definition real_world_scenario_section_obj :: "addr \<Rightarrow> (pivot \<times> slider list) prog" where
  "real_world_scenario_section_obj a =
     then_do (selectSection_obj a ''Real-World Scenario''
                [''Risk Factor'', ''Risk Score Contribution (%)'', ''Correlation''])
       (read_frame scenario_of_view)"

text \<open>What the four sections of \<^verbatim>\<open>main\<close> hand to their charts.\<close>

record dashboard =
  shap_view :: dataframe
  sources_pie :: pie
  metrics_view :: dataframe
  scenario :: "pivot \<times> slider list"

text \<open>\<^verbatim>\<open>main\<close> after \<^verbatim>\<open>load_data\<close>: the four sections in turn, on the one frame at \<open>a\<close>.\<close>

definition main :: "addr \<Rightarrow> dashboard prog" where
  "main a =
     then_do (model_interpretability_section_obj a) (\<lambda>v1.
     then_do (data_sources_section_obj a) (\<lambda>v2.
     then_do (key_metrics_section_obj a) (\<lambda>v3.
     then_do (real_world_scenario_section_obj a) (\<lambda>v4.
       (\<lambda>st. (Inr \<lparr>shap_view = v1, sources_pie = v2, metrics_view = v3, scenario = v4\<rparr>, st))))))"

text \<open>The module body of \<^verbatim>\<open>_1.py\<close> after \<^verbatim>\<open>read_csv\<close>, on the frame at \<open>a\<close>.\<close>

record script_output =
  shap_bars :: dataframe
  sankey :: "cell list"
  accuracy :: "(cell \<times> cell) list"
  compliance :: "(cell \<times> cell) list"
  heatmap :: pivot
  sliders :: "slider list"

definition script :: "addr \<Rightarrow> script_output prog" where
  "script a =
     then_do (new_frame model_data a) (\<lambda>m.
     then_do (read_frame shap_barplot m) (\<lambda>v1.
     then_do (select_component_obj a ''Data Sources'') (\<lambda>s.
     then_do (new_frame (\<lambda>df. Inr (dropna_all df)) s) (\<lambda>s'.
     then_do (read_frame sankey_labels s') (\<lambda>v2.
     then_do (new_frame metrics_data a) (\<lambda>k.
     then_do (read_frame (metric_series ''Accuracy'') k) (\<lambda>v3.
     then_do (read_frame (metric_series ''Compliance Rate'') k) (\<lambda>v4.
     then_do (new_frame scenario_data a) (\<lambda>c.
     then_do (read_frame scenario_heatmap c) (\<lambda>v5.
       (\<lambda>st. (Inr \<lparr>shap_bars = v1, sankey = v2, accuracy = v3, compliance = v4,
                       heatmap = v5, sliders = script_sliders\<rparr>, st))))))))))))"

text \<open>
  The four sections of \<^verbatim>\<open>main\<close> read as functions of one table: what the dashboard
  shows when every section sees the table \<open>data\<close>.
\<close>

definition render :: "dataframe \<Rightarrow> error + dashboard" where
  "render data =
     (case model_interpretability_section data of
        Inl e \<Rightarrow> Inl e
      | Inr v1 \<Rightarrow>
          (case data_sources_section data of
             Inl e \<Rightarrow> Inl e
           | Inr v2 \<Rightarrow>
               (case key_metrics_section data of
                  Inl e \<Rightarrow> Inl e
                | Inr v3 \<Rightarrow>
                    (case real_world_scenario_section data of
                       Inl e \<Rightarrow> Inl e
                     | Inr v4 \<Rightarrow>
                         Inr \<lparr>shap_view = v1, sources_pie = v2, metrics_view = v3, scenario = v4\<rparr>))))"

text \<open>A computation that leaves every object of the store it starts from as it was.\<close>

definition frame_safe :: "'a prog \<Rightarrow> bool" where
  "frame_safe p = (\<forall>st. prefix st (snd (p st)))"

section \<open>Small tables\<close>

text \<open>Tables in the shape of the dashboards' file, to run the definitions on.\<close>

definition sources_example :: dataframe where
  "sources_example =
     \<lparr>columns = [''Component'', ''Source'', ''Percentage Contribution (%)''],
      rows = [[Str ''Data Sources'', Str ''Credit Bureau'', Num 40],
              [Str ''Key Metrics'', NaN, NaN],
              [Str ''Data Sources'', NaN, Num 30],
              [Str ''Data Sources'', Str ''Bank Records'', Num 60]]\<rparr>"

definition scenario_example :: dataframe where
  "scenario_example =
     \<lparr>columns = [''Component'', ''Risk Factor'', ''Risk Score Contribution (%)'', ''Correlation''],
      rows = [[Str ''Real-World Scenario'', Str ''Loan-to-Income Ratio'', Num 135, Str ''High''],
              [Str ''Real-World Scenario'', Str ''Payment History'', Num 30, Str ''Low''],
              [Str ''Real-World Scenario'', Str ''Loan-to-Income Ratio'', Num 20, Str ''High'']]\<rparr>"

definition overrange_example :: dataframe where
  "overrange_example =
     \<lparr>columns = [''Component'', ''Risk Factor'', ''Risk Score Contribution (%)'', ''Correlation''],
      rows = [[Str ''Real-World Scenario'', Str ''Debt-to-Income'', Num 135, Str ''High''],
              [Str ''Real-World Scenario'', Str ''Payment History'', Num 30, Str ''Low'']]\<rparr>"

definition dashboard_example :: dataframe where
  "dashboard_example =
     \<lparr>columns = [''Component'', ''Feature'', ''SHAP Value'', ''LIME Weight'', ''Source'',
                 ''Percentage Contribution (%)'', ''Model'', ''Accuracy (%)'', ''Compliance Rate (%)'',
                 ''Risk Factor'', ''Risk Score Contribution (%)'', ''Correlation''],
      rows = [[Str ''Model Interpretability'', Str ''Income'', Num (1 / 4), Num (1 / 5),
                 NaN, NaN, NaN, NaN, NaN, NaN, NaN, NaN],
              [Str ''Data Sources'', NaN, NaN, NaN, Str ''Credit Bureau'', Num 40,
                 NaN, NaN, NaN, NaN, NaN, NaN],
              [Str ''Key Metrics'', NaN, NaN, NaN, NaN, NaN, Str ''Random Forest'', Num 92, Num 88,
                 NaN, NaN, NaN],
              [Str ''Real-World Scenario'', NaN, NaN, NaN, NaN, NaN, NaN, NaN, NaN,
                 Str ''Loan-to-Income Ratio'', Num 35, Str ''High'']]\<rparr>"



section \<open>Basic facts\<close>

lemma col_index_None: "col_index c cols = None \<longleftrightarrow> c \<notin> set cols"
  by (induction cols) auto

lemma col_index_Some: "c \<in> set cols \<Longrightarrow> \<exists>i. col_index c cols = Some i"
  using col_index_None [of c cols] by (cases "col_index c cols") auto

lemma mask_filter: "map fst (filter snd (zip xs (map P xs))) = filter P xs"
  by (induction xs) auto

lemma selectSection_eq:
  assumes "''Component'' \<in> set (columns D)" and "set F \<subseteq> set (columns D)"
  shows "selectSection D L F =
           Inr (D\<lparr>rows := filter (\<lambda>r. \<forall>c\<in>set F. cell_of (columns D) r c \<noteq> NaN)
                            (filter (\<lambda>r. cell_of (columns D) r ''Component'' = Str L) (rows D))\<rparr>)"
proof -
  obtain i where i: "col_index ''Component'' (columns D) = Some i"
    using col_index_Some [OF assms(1)] by blast
  have m: "getitem_mask D (series_eq (map (\<lambda>r. cell_at r i) (rows D)) L) =
             D\<lparr>rows := filter (\<lambda>r. cell_of (columns D) r ''Component'' = Str L) (rows D)\<rparr>"
    using mask_filter [where P = "\<lambda>r. cell_at r i = Str L" and xs = "rows D"]
    by (simp add: getitem_mask_def series_eq_def cell_of_def i comp_def)
  have a: "filter (\<lambda>c. c \<notin> set (columns D)) F = []"
    using assms(2) by (auto simp: filter_empty_conv)
  show ?thesis
    by (simp add: selectSection_def getitem_def i m dropna_def a)
qed

lemma selectSection_KeyError:
  assumes "f \<in> set F" and "f \<notin> set (columns D)"
  shows "\<exists>ks. selectSection D L F = Inl (KeyError ks)"
proof (cases "col_index ''Component'' (columns D)")
  case None
  then show ?thesis by (simp add: selectSection_def getitem_def)
next
  case (Some i)
  have "filter (\<lambda>c. c \<notin> set (columns D)) F \<noteq> []"
    using assms by (auto simp: filter_empty_conv)
  then show ?thesis
    by (simp add: selectSection_def getitem_def Some dropna_def getitem_mask_def Let_def)
qed

lemma selectSection_columns:
  "selectSection D L F = Inr V \<Longrightarrow> columns V = columns D"
  by (auto simp: selectSection_def getitem_def dropna_def getitem_mask_def Let_def
           split: option.splits if_splits)

lemmas run_select =
  selectSection_def getitem_def series_eq_def getitem_mask_def dropna_def cell_of_def cell_at_def

section \<open>The section view: what it keeps and what it drops\<close>

text \<open>
  Claim C1. On a table that has the \<^verbatim>\<open>Component\<close> column and every required column,
  \<open>selectSection\<close> returns a view; every record of the view has a value in each
  required field, and every record of the table that carries the label and has a value
  in each required field is in the view.
\<close>

theorem selectSection_sound_complete:
  assumes "''Component'' \<in> set (columns D)" and "set F \<subseteq> set (columns D)"
  shows "\<exists>V. selectSection D L F = Inr V \<and>
           (\<forall>r\<in>set (rows V). \<forall>f\<in>set F. cell_of (columns V) r f \<noteq> NaN) \<and>
           (\<forall>r\<in>set (rows D).
              cell_of (columns D) r ''Component'' = Str L \<and>
              (\<forall>f\<in>set F. cell_of (columns D) r f \<noteq> NaN) \<longrightarrow> r \<in> set (rows V))"
  using selectSection_eq [OF assms, of L] by simp

theorem selectSection_sound_complete_witness:
  "''Component'' \<in> set (columns sources_example) \<and>
   set [''Source''] \<subseteq> set (columns sources_example) \<and>
   selectSection sources_example ''Data Sources'' [''Source''] =
     Inr (sources_example\<lparr>rows := [[Str ''Data Sources'', Str ''Credit Bureau'', Num 40],
                                    [Str ''Data Sources'', Str ''Bank Records'', Num 60]]\<rparr>)"
  using selectSection_sound_complete [of sources_example "[''Source'']" "''Data Sources''"]
  by (simp add: sources_example_def run_select)

text \<open>
  Claim C2. With no required field, every record of the view carries the label in its
  \<^verbatim>\<open>Component\<close> field, and the view has at most as many records as the table.
\<close>

theorem selectSection_component_length:
  assumes "''Component'' \<in> set (columns D)"
  shows "\<exists>V. selectSection D L [] = Inr V \<and>
           (\<forall>r\<in>set (rows V). cell_of (columns V) r ''Component'' = Str L) \<and>
           length (rows V) \<le> length (rows D)"
  using selectSection_eq [OF assms, of "[]" L] by simp

theorem selectSection_component_length_witness:
  "''Component'' \<in> set (columns sources_example) \<and>
   selectSection sources_example ''Key Metrics'' [] =
     Inr (sources_example\<lparr>rows := [[Str ''Key Metrics'', NaN, NaN]]\<rparr>)"
  using selectSection_component_length [of sources_example "''Key Metrics''"]
  by (simp add: sources_example_def run_select)

text \<open>
  Claim C4. When a required field names a column that the table does not have,
  \<open>selectSection\<close> raises \<^verbatim>\<open>KeyError\<close> (the spec's schema mismatch) and returns no view,
  whatever the records are.
\<close>

theorem selectSection_absent_column:
  assumes "f \<in> set F" and "f \<notin> set (columns D)"
  shows "(\<exists>ks. selectSection D L F = Inl (KeyError ks)) \<and> (\<forall>V. selectSection D L F \<noteq> Inr V)"
  using selectSection_KeyError [OF assms, of L] by auto

theorem selectSection_absent_column_witness:
  "''LIME Weight'' \<in> set [''Source'', ''LIME Weight''] \<and>
   ''LIME Weight'' \<notin> set (columns sources_example) \<and>
   selectSection sources_example ''Data Sources'' [''Source'', ''LIME Weight''] =
     Inl (KeyError [''LIME Weight''])"
  using selectSection_absent_column
          [of "''LIME Weight''" "[''Source'', ''LIME Weight'']" sources_example "''Data Sources''"]
  by (simp add: sources_example_def run_select)




text \<open>
  Claim C8. The records of the view are records of the table in the table's order: the
  view is a subsequence of the table.
\<close>

theorem selectSection_order:
  assumes "''Component'' \<in> set (columns D)" and "set F \<subseteq> set (columns D)"
  shows "\<exists>V. selectSection D L F = Inr V \<and> subseq (rows V) (rows D)"
  using selectSection_eq [OF assms, of L] by simp

theorem selectSection_order_witness:
  "''Component'' \<in> set (columns sources_example) \<and>
   set [''Percentage Contribution (%)''] \<subseteq> set (columns sources_example) \<and>
   (\<exists>V. selectSection sources_example ''Data Sources'' [''Percentage Contribution (%)''] = Inr V \<and>
        rows V = [[Str ''Data Sources'', Str ''Credit Bureau'', Num 40],
                  [Str ''Data Sources'', NaN, Num 30],
                  [Str ''Data Sources'', Str ''Bank Records'', Num 60]] \<and>
        subseq (rows V) (rows sources_example))"
proof -
  have h: "''Component'' \<in> set (columns sources_example)"
    "set [''Percentage Contribution (%)''] \<subseteq> set (columns sources_example)"
    by (simp_all add: sources_example_def)
  obtain V where v: "selectSection sources_example ''Data Sources'' [''Percentage Contribution (%)''] = Inr V"
    and s: "subseq (rows V) (rows sources_example)"
    using selectSection_order [OF h] by blast
  have "selectSection sources_example ''Data Sources'' [''Percentage Contribution (%)''] =
          Inr (sources_example\<lparr>rows := [[Str ''Data Sources'', Str ''Credit Bureau'', Num 40],
                  [Str ''Data Sources'', NaN, Num 30],
                  [Str ''Data Sources'', Str ''Bank Records'', Num 60]]\<rparr>)"
    by (simp add: sources_example_def run_select)
  with v have "rows V = [[Str ''Data Sources'', Str ''Credit Bureau'', Num 40],
                  [Str ''Data Sources'', NaN, Num 30],
                  [Str ''Data Sources'', Str ''Bank Records'', Num 60]]"
    by auto
  with h v s show ?thesis by blast
qed

section \<open>Facts about keys, counts and cells\<close>

lemma set_insort_cell: "set (insort_cell k xs) = insert k (set xs)"
  by (induction xs) auto

lemma set_sort_cells: "set (sort_cells ks) = set ks"
  unfolding sort_cells_def by (induction ks) (auto simp: set_insort_cell)

lemma distinct_insort_cell: "distinct (insort_cell k xs) \<longleftrightarrow> k \<notin> set xs \<and> distinct xs"
  by (induction xs) (auto simp: set_insort_cell)

lemma distinct_sort_cells: "distinct ks \<Longrightarrow> distinct (sort_cells ks)"
  unfolding sort_cells_def
proof (induction ks)
  case Nil
  show ?case by simp
next
  case (Cons k ks)
  then show ?case
    using set_sort_cells [of ks] by (simp add: distinct_insort_cell sort_cells_def)
qed

lemma set_group_keys: "set (group_keys ks) = set ks"
  by (simp add: group_keys_def set_sort_cells)

lemma distinct_group_keys: "distinct (group_keys ks)"
  by (simp add: group_keys_def distinct_sort_cells)

lemma cell_num_size_cell: "cell_num (size_cell n) = of_nat n"
  by (simp add: size_cell_def)

lemma sum_list_table:
  "sum_list (map h (concat (map (\<lambda>a. map (g a) ys) xs))) =
     (\<Sum>a\<leftarrow>xs. \<Sum>b\<leftarrow>ys. h (g a b))"
  by (induction xs) (simp_all add: comp_def)

lemma count_grid:
  assumes "distinct xs" and "distinct ys" and "set ps \<subseteq> set xs \<times> set ys"
  shows "(\<Sum>a\<leftarrow>xs. \<Sum>b\<leftarrow>ys. count_list ps (a, b)) = length ps"
proof -
  have "(\<Sum>a\<leftarrow>xs. \<Sum>b\<leftarrow>ys. count_list ps (a, b)) =
          (\<Sum>a\<in>set xs. \<Sum>b\<in>set ys. count_list ps (a, b))"
    using assms(1,2) by (simp add: sum_list_distinct_conv_sum_set)
  also have "\<dots> = sum (count_list ps) (set xs \<times> set ys)"
    by (simp add: sum.cartesian_product)
  also have "\<dots> = length ps"
    using assms(3) by (intro sum_count_set) auto
  finally show ?thesis .
qed

lemma of_nat_sum_row: "(\<Sum>b\<leftarrow>ys. (of_nat (f b) :: rat)) = of_nat (\<Sum>b\<leftarrow>ys. f b)"
  by (induction ys) simp_all

lemma of_nat_sum_grid:
  "(\<Sum>a\<leftarrow>xs. \<Sum>b\<leftarrow>ys. (of_nat (f a b) :: rat)) = of_nat (\<Sum>a\<leftarrow>xs. \<Sum>b\<leftarrow>ys. f a b)"
  by (induction xs) (simp_all add: of_nat_sum_row)

lemma pivot_size_sum:
  assumes "pivot_size V rf cf = Inr T"
  shows "pivot_sum T = of_nat (length (key_pairs V rf cf))"
proof -
  let ?ps = "key_pairs V rf cf"
  let ?idx = "group_keys (map fst ?ps)"
  let ?cls = "group_keys (map snd ?ps)"
  have T: "T = \<lparr>pt_index = ?idx, pt_columns = ?cls,
                 pt_values = map (\<lambda>a. map (\<lambda>b. size_cell (count_list ?ps (a, b))) ?cls) ?idx\<rparr>"
    using assms by (simp add: pivot_size_def Let_def split: if_splits)
  have sub: "set ?ps \<subseteq> set ?idx \<times> set ?cls"
    by (auto simp: set_group_keys intro: rev_image_eqI)
  have "pivot_sum T = (\<Sum>a\<leftarrow>?idx. \<Sum>b\<leftarrow>?cls. of_nat (count_list ?ps (a, b)))"
    by (simp add: T pivot_sum_def sum_list_table cell_num_size_cell)
  also have "\<dots> = of_nat (\<Sum>a\<leftarrow>?idx. \<Sum>b\<leftarrow>?cls. count_list ?ps (a, b))"
    by (rule of_nat_sum_grid)
  also have "\<dots> = of_nat (length ?ps)"
    using count_grid [OF distinct_group_keys distinct_group_keys sub] by simp
  finally show ?thesis .
qed


lemma col_index_nth:
  "x \<in> set xs \<Longrightarrow> \<exists>i. col_index x xs = Some i \<and> i < length xs \<and> xs ! i = x"
  by (induction xs) auto

lemma count_filter: "P x \<Longrightarrow> count_list (filter P xs) x = count_list xs x"
  by (induction xs) auto

lemma count_key_pairs:
  "a \<noteq> NaN \<Longrightarrow> b \<noteq> NaN \<Longrightarrow>
   count_list (key_pairs V rf cf) (a, b) = count_list (field_pairs V rf cf) (a, b)"
  unfolding key_pairs_def by (rule count_filter) simp

lemma length_key_pairs:
  "length (key_pairs V rf cf) =
     length (filter (\<lambda>r. cell_of (columns V) r rf \<noteq> NaN \<and> cell_of (columns V) r cf \<noteq> NaN) (rows V))"
  by (simp add: key_pairs_def field_pairs_def filter_map comp_def)

lemma pivot_size_returns:
  assumes "rf \<in> set (columns V)" and "cf \<in> set (columns V)" and "rf \<noteq> cf"
    and "\<not> ((\<exists>k\<in>set (map snd (key_pairs V rf cf)). is_num k) \<and> (\<exists>k\<in>set (map snd (key_pairs V rf cf)). is_str k))"
  shows "\<exists>T. pivot_size V rf cf = Inr T"
  using assms by (auto simp: pivot_size_def Let_def set_group_keys)

lemma first_of_filter_map:
  "(case filter P (map f xs) of [] \<Rightarrow> d | p # _ \<Rightarrow> g p) =
   (case find (\<lambda>r. P (f r)) xs of None \<Rightarrow> d | Some r \<Rightarrow> g (f r))"
  by (induction xs) auto

lemma group_first_find:
  "group_first (field_pairs V rf vf) k =
     (case find (\<lambda>r. cell_of (columns V) r rf = k \<and> cell_of (columns V) r vf \<noteq> NaN) (rows V) of
        None \<Rightarrow> NaN
      | Some r \<Rightarrow> cell_of (columns V) r vf)"
  unfolding group_first_def field_pairs_def
  using first_of_filter_map [where P = "\<lambda>p. fst p = k \<and> snd p \<noteq> NaN"
          and f = "\<lambda>r. (cell_of (columns V) r rf, cell_of (columns V) r vf)"
          and xs = "rows V" and d = NaN and g = snd]
  by (simp split: option.splits)

lemma find_cong_set: "(\<And>x. x \<in> set xs \<Longrightarrow> P x = Q x) \<Longrightarrow> find P xs = find Q xs"
  by (induction xs) auto

lemma getitem_cells:
  "c \<in> set (columns V) \<Longrightarrow> getitem V c = Inr (map (\<lambda>r. cell_of (columns V) r c) (rows V))"
  using col_index_Some [of c "columns V"] by (auto simp: getitem_def cell_of_def)

section \<open>The pie chart of the data sources\<close>

text \<open>
  Claim C10. On a table with the columns the section reads, the labels and the sizes of
  the pie chart are the \<^verbatim>\<open>Source\<close> and the \<^verbatim>\<open>Percentage Contribution (%)\<close> cells of
  the records of one view, in the order of the view: both have the length of the view,
  and the label and the size at a position come from the record at that position. The
  section ends as \<^verbatim>\<open>ax.pie\<close> does on these arguments, and returns them when the chart is
  drawn.
\<close>

theorem data_sources_aligned:
  assumes "''Component'' \<in> set (columns D)" and "''Source'' \<in> set (columns D)"
    and "''Percentage Contribution (%)'' \<in> set (columns D)"
  shows "\<exists>V p. selectSection D ''Data Sources'' [''Source'', ''Percentage Contribution (%)''] = Inr V \<and>
           pie_of_view V = Inr p \<and>
           data_sources_section D = (case ax_pie p of Some e \<Rightarrow> Inl e | None \<Rightarrow> Inr p) \<and>
           length (pie_labels p) = length (rows V) \<and>
           length (pie_sizes p) = length (rows V) \<and>
           (\<forall>i<length (rows V).
              pie_labels p ! i = cell_of (columns V) (rows V ! i) ''Source'' \<and>
              pie_sizes p ! i = cell_of (columns V) (rows V ! i) ''Percentage Contribution (%)'')"
proof -
  obtain V where V: "selectSection D ''Data Sources'' [''Source'', ''Percentage Contribution (%)''] = Inr V"
    using selectSection_eq [OF assms(1), of "[''Source'', ''Percentage Contribution (%)'']" "''Data Sources''"]
      assms(2,3) by simp
  have c: "columns V = columns D"
    using V by (rule selectSection_columns)
  have "pie_of_view V =
          Inr \<lparr>pie_sizes = map (\<lambda>r. cell_of (columns V) r ''Percentage Contribution (%)'') (rows V),
               pie_labels = map (\<lambda>r. cell_of (columns V) r ''Source'') (rows V),
               pie_colors = length (rows V)\<rparr>"
    using assms(2,3) by (simp add: pie_of_view_def getitem_cells c)
  then show ?thesis
    using V by (simp add: data_sources_section_def pie_chart_def)
qed

theorem data_sources_aligned_witness:
  "''Component'' \<in> set (columns sources_example) \<and>
   ''Source'' \<in> set (columns sources_example) \<and>
   ''Percentage Contribution (%)'' \<in> set (columns sources_example) \<and>
   data_sources_section sources_example =
     Inr \<lparr>pie_sizes = [Num 40, Num 60],
          pie_labels = [Str ''Credit Bureau'', Str ''Bank Records''],
          pie_colors = 2\<rparr>"
  using data_sources_aligned [of sources_example]
  by (simp add: sources_example_def data_sources_section_def pie_chart_def pie_of_view_def
        ax_pie_def run_select)

section \<open>The scenario sliders\<close>

text \<open>
  Claim C3, as the code has it. For a numeric default \<open>d\<close> the slider is asked for with
  the bounds 0 and 100 and the initial value \<^verbatim>\<open>int(d)\<close>, \<open>d\<close> truncated toward zero and
  not clamped: the initial value lies between 0 and 100 exactly when \<open>-1 < d < 101\<close>.
\<close>

theorem seed_slider_unclamped:
  "\<exists>v. seed_slider factor (Num d) =
          Inr \<lparr>slider_label = factor, min_value = 0, max_value = 100, slider_value = v\<rparr> \<and>
        v = (if 0 \<le> d then \<lfloor>d\<rfloor> else \<lceil>d\<rceil>) \<and>
        ((0 \<le> v \<and> v \<le> 100) = (- 1 < d \<and> d < 101))"
proof (cases "0 \<le> d")
  case True
  have "(\<lfloor>d\<rfloor> \<le> 100) = (d < 101)"
    using floor_less_iff [of d 101] by simp
  then show ?thesis
    using True by (simp add: seed_slider_def)
next
  case False
  have "(0 \<le> \<lceil>d\<rceil>) = (- 1 < d)"
    using le_ceiling_iff [of 0 d] by simp
  moreover have "\<lceil>d\<rceil> \<le> 100"
    using False by (simp add: ceiling_le_iff)
  ultimately show ?thesis
    using False by (simp add: seed_slider_def)
qed

text \<open>
  A table whose default contribution is 135: the slider is asked for with the initial
  value 135, above the upper bound 100 it is given, and not with 100.
\<close>

theorem slider_not_clamped_counterexample:
  "real_world_scenario_section overrange_example =
     Inr (\<lparr>pt_index = [Str ''Debt-to-Income'', Str ''Payment History''],
           pt_columns = [Str ''Risk Score Contribution (%)''],
           pt_values = [[Num 135], [Num 30]]\<rparr>,
          [\<lparr>slider_label = Str ''Debt-to-Income'', min_value = 0, max_value = 100, slider_value = 135\<rparr>,
           \<lparr>slider_label = Str ''Payment History'', min_value = 0, max_value = 100, slider_value = 30\<rparr>]) \<and>
   seed_slider (Str ''Debt-to-Income'') (Num 135) =
     Inr \<lparr>slider_label = Str ''Debt-to-Income'', min_value = 0, max_value = 100, slider_value = 135\<rparr> \<and>
   (135 :: int) \<noteq> 100 \<and> \<not> (135 :: int) \<le> 100"
  by (simp add: real_world_scenario_section_def overrange_example_def scenario_of_view_def run_select
        pivot_first_def field_pairs_def group_keys_def sort_cells_def group_first_def
        sns_heatmap_def seed_slider_def)

section \<open>The count table\<close>

text \<open>
  Claim C5, as the code has it. When \<open>pivot_size\<close> returns a table, its cells that are
  not missing sum to the number of records that have a value in both key fields (every
  record of a view that requires both), and the cell of a row label and a column label
  is the number of records with that pair of keys, or a missing cell (not zero) when no
  record has the pair.
\<close>

theorem pivot_size_cells:
  assumes "pivot_size V rf cf = Inr T"
  shows "pivot_sum T =
           of_nat (length (filter (\<lambda>r. cell_of (columns V) r rf \<noteq> NaN \<and> cell_of (columns V) r cf \<noteq> NaN)
                             (rows V))) \<and>
         (\<forall>a\<in>set (pt_index T). \<forall>b\<in>set (pt_columns T).
            pivot_cell T a b =
              Some (if (a, b) \<in> set (field_pairs V rf cf)
                    then Num (of_nat (count_list (field_pairs V rf cf) (a, b))) else NaN))"
proof -
  let ?ps = "key_pairs V rf cf"
  let ?idx = "group_keys (map fst ?ps)"
  let ?cls = "group_keys (map snd ?ps)"
  have T: "T = \<lparr>pt_index = ?idx, pt_columns = ?cls,
                 pt_values = map (\<lambda>a. map (\<lambda>b. size_cell (count_list ?ps (a, b))) ?cls) ?idx\<rparr>"
    using assms by (simp add: pivot_size_def Let_def split: if_splits)
  have cellv: "pivot_cell T a b =
              Some (if (a, b) \<in> set (field_pairs V rf cf)
                    then Num (of_nat (count_list (field_pairs V rf cf) (a, b))) else NaN)"
    if a: "a \<in> set ?idx" and b: "b \<in> set ?cls" for a b
  proof -
    obtain i where i: "col_index a ?idx = Some i" "i < length ?idx" "?idx ! i = a"
      using col_index_nth [OF a] by blast
    obtain j where j: "col_index b ?cls = Some j" "j < length ?cls" "?cls ! j = b"
      using col_index_nth [OF b] by blast
    have ne: "a \<noteq> NaN" "b \<noteq> NaN"
      using a b by (auto simp: set_group_keys key_pairs_def)
    have "pivot_cell T a b = Some (size_cell (count_list ?ps (a, b)))"
      using i j by (simp add: T pivot_cell_def)
    also have "count_list ?ps (a, b) = count_list (field_pairs V rf cf) (a, b)"
      using ne by (rule count_key_pairs)
    finally show ?thesis
      by (simp add: size_cell_def count_list_0_iff)
  qed
  show ?thesis
    using pivot_size_sum [OF assms] cellv by (simp add: length_key_pairs T)
qed

theorem pivot_size_cells_witness:
  "pivot_size scenario_example ''Risk Factor'' ''Correlation'' =
     Inr \<lparr>pt_index = [Str ''Loan-to-Income Ratio'', Str ''Payment History''],
          pt_columns = [Str ''High'', Str ''Low''],
          pt_values = [[Num 2, NaN], [NaN, Num 1]]\<rparr> \<and>
   pivot_sum \<lparr>pt_index = [Str ''Loan-to-Income Ratio'', Str ''Payment History''],
          pt_columns = [Str ''High'', Str ''Low''],
          pt_values = [[Num 2, NaN], [NaN, Num 1]]\<rparr> = 3"
proof -
  have run: "pivot_size scenario_example ''Risk Factor'' ''Correlation'' =
     Inr \<lparr>pt_index = [Str ''Loan-to-Income Ratio'', Str ''Payment History''],
          pt_columns = [Str ''High'', Str ''Low''],
          pt_values = [[Num 2, NaN], [NaN, Num 1]]\<rparr>"
    by (simp add: scenario_example_def pivot_size_def key_pairs_def field_pairs_def
          cell_of_def cell_at_def group_keys_def sort_cells_def size_cell_def)
  show ?thesis
    using pivot_size_cells [OF run] run
    by (simp add: scenario_example_def cell_of_def cell_at_def)
qed

text \<open>
  The heatmap table of \<^verbatim>\<open>_1.py\<close> on three records: no record pairs the first risk
  factor with the correlation \<^verbatim>\<open>Low\<close>, and the cell of that pair is missing, not zero.
\<close>

theorem pivot_size_absent_counterexample:
  "scenario_data scenario_example = Inr scenario_example \<and>
   scenario_heatmap scenario_example =
     Inr \<lparr>pt_index = [Str ''Loan-to-Income Ratio'', Str ''Payment History''],
          pt_columns = [Str ''High'', Str ''Low''],
          pt_values = [[Num 2, NaN], [NaN, Num 1]]\<rparr> \<and>
   pivot_cell \<lparr>pt_index = [Str ''Loan-to-Income Ratio'', Str ''Payment History''],
          pt_columns = [Str ''High'', Str ''Low''],
          pt_values = [[Num 2, NaN], [NaN, Num 1]]\<rparr> (Str ''Loan-to-Income Ratio'') (Str ''Low'') = Some NaN \<and>
   NaN \<noteq> Num 0"
  by (simp add: scenario_data_def dropna_def scenario_heatmap_def scenario_example_def pivot_size_def
        key_pairs_def field_pairs_def cell_of_def cell_at_def group_keys_def sort_cells_def
        size_cell_def pivot_cell_def sns_heatmap_def)


section \<open>The first-value table\<close>

text \<open>
  Claim C6. On a view whose records all have a value in the row field and in the value
  field, \<open>pivot_first\<close> returns a table with one row per key of the view, and the row of a
  key holds the value of the first record of the view with that key. Its one column is
  the value field, and the table of a view with no record has no row and no column. The
  table is a function of the two columns in record order alone: any view with the same
  pairs of cells in them gives the same table.
\<close>

theorem pivot_first_first_record:
  assumes "rf \<in> set (columns V)" and "vf \<in> set (columns V)" and "rf \<noteq> vf"
    and inv: "\<forall>r\<in>set (rows V). cell_of (columns V) r rf \<noteq> NaN \<and> cell_of (columns V) r vf \<noteq> NaN"
  shows "\<exists>T. pivot_first V rf vf = Inr T \<and>
           distinct (pt_index T) \<and>
           set (pt_index T) = (\<lambda>r. cell_of (columns V) r rf) ` set (rows V) \<and>
           pt_columns T = (if rows V = [] then [] else [Str vf]) \<and>
           (\<forall>k\<in>set (pt_index T).
              \<exists>r. find (\<lambda>r. cell_of (columns V) r rf = k) (rows V) = Some r \<and>
                  pivot_cell T k (Str vf) = Some (cell_of (columns V) r vf)) \<and>
           (\<forall>V'. rf \<in> set (columns V') \<and> vf \<in> set (columns V') \<and>
                 field_pairs V' rf vf = field_pairs V rf vf \<longrightarrow> pivot_first V' rf vf = Inr T)"
proof -
  let ?ps = "field_pairs V rf vf"
  let ?key = "\<lambda>r. cell_of (columns V) r rf"
  let ?ks = "group_keys (filter (\<lambda>k. k \<noteq> NaN) (map fst ?ps))"
  let ?kept = "filter (\<lambda>k. group_first ?ps k \<noteq> NaN) ?ks"
  let ?T = "\<lparr>pt_index = ?kept, pt_columns = (if ?kept = [] then [] else [Str vf]),
             pt_values = map (\<lambda>k. [group_first ?ps k]) ?kept\<rparr>"
  have run: "pivot_first V rf vf = Inr ?T"
    using assms(1-3) by (simp add: pivot_first_def Let_def)
  have keys: "set ?ks = ?key ` set (rows V)"
    using inv by (auto simp: set_group_keys field_pairs_def)
  have first: "\<exists>r. find (\<lambda>r. ?key r = k) (rows V) = Some r \<and>
                   group_first ?ps k = cell_of (columns V) r vf \<and> group_first ?ps k \<noteq> NaN"
    if kk: "k \<in> set ?ks" for k
  proof -
    have same: "find (\<lambda>r. ?key r = k \<and> cell_of (columns V) r vf \<noteq> NaN) (rows V) =
                find (\<lambda>r. ?key r = k) (rows V)"
      using inv by (intro find_cong_set) auto
    have "k \<in> ?key ` set (rows V)"
      using kk keys by simp
    then obtain r where r: "find (\<lambda>r. ?key r = k) (rows V) = Some r"
      by (cases "find (\<lambda>r. ?key r = k) (rows V)") (auto simp: find_None_iff)
    then have "r \<in> set (rows V)"
      by (auto simp: find_Some_iff)
    then show ?thesis
      using r inv by (simp add: group_first_find same)
  qed
  then have kept: "?kept = ?ks"
    by (auto simp: filter_id_conv)
  have cells: "\<exists>r. find (\<lambda>r. ?key r = k) (rows V) = Some r \<and>
                   pivot_cell ?T k (Str vf) = Some (cell_of (columns V) r vf)"
    if kk: "k \<in> set ?kept" for k
  proof -
    obtain i where i: "col_index k ?kept = Some i" "i < length ?kept" "?kept ! i = k"
      using col_index_nth [OF kk] by blast
    have "?kept \<noteq> []"
      using kk by (metis empty_iff empty_set)
    then have "pivot_cell ?T k (Str vf) = Some (group_first ?ps k)"
      using i by (simp add: pivot_cell_def)
    then show ?thesis
      using first [of k] kk kept by auto
  qed
  have det: "pivot_first V' rf vf = Inr ?T"
    if "rf \<in> set (columns V')" "vf \<in> set (columns V')" "field_pairs V' rf vf = ?ps" for V'
    using that assms(3) by (simp add: pivot_first_def Let_def)
  have d: "distinct ?kept"
    by (simp add: distinct_group_keys)
  have s: "set ?kept = ?key ` set (rows V)"
    using kept keys by simp
  have "(?kept = []) = (?ks = [])"
    by (simp only: kept)
  also have "\<dots> = (set ?ks = {})"
    by (rule set_empty [symmetric])
  also have "\<dots> = (?key ` set (rows V) = {})"
    by (simp only: keys)
  also have "\<dots> = (rows V = [])"
    by simp
  finally have c: "pt_columns ?T = (if rows V = [] then [] else [Str vf])"
    by simp
  show ?thesis
    using run d s c cells det by (intro exI [of _ ?T]) simp
qed

theorem pivot_first_first_record_witness:
  "''Risk Factor'' \<in> set (columns scenario_example) \<and>
   ''Risk Score Contribution (%)'' \<in> set (columns scenario_example) \<and>
   ''Risk Factor'' \<noteq> ''Risk Score Contribution (%)'' \<and>
   pivot_first scenario_example ''Risk Factor'' ''Risk Score Contribution (%)'' =
     Inr \<lparr>pt_index = [Str ''Loan-to-Income Ratio'', Str ''Payment History''],
          pt_columns = [Str ''Risk Score Contribution (%)''],
          pt_values = [[Num 135], [Num 30]]\<rparr>"
  using pivot_first_first_record
          [of "''Risk Factor''" scenario_example "''Risk Score Contribution (%)''"]
  by (simp add: scenario_example_def pivot_first_def field_pairs_def cell_of_def cell_at_def
        group_keys_def sort_cells_def group_first_def)

section \<open>The table is only read\<close>

lemma frame_safe_new_frame: "frame_safe (new_frame f a)"
  by (simp add: frame_safe_def new_frame_def split: sum.splits)

lemma frame_safe_read_frame: "frame_safe (read_frame f a)"
  by (simp add: frame_safe_def read_frame_def)

lemma frame_safe_return: "frame_safe (\<lambda>st. (r, st))"
  by (simp add: frame_safe_def)

lemma frame_safe_then_do:
  assumes "frame_safe p" and "\<And>x. frame_safe (k x)"
  shows "frame_safe (then_do p k)"
  unfolding frame_safe_def
proof
  fix st
  obtain r st' where p: "p st = (r, st')"
    by (cases "p st")
  have 1: "prefix st st'"
    using assms(1) p by (auto simp: frame_safe_def dest: spec [of _ st])
  show "prefix st (snd (then_do p k st))"
  proof (cases r)
    case (Inl e)
    then show ?thesis using p 1 by (simp add: then_do_def)
  next
    case (Inr x)
    have "prefix st' (snd (k x st'))"
      using assms(2) [of x] by (simp add: frame_safe_def)
    then show ?thesis
      using p 1 Inr by (auto simp: then_do_def)
  qed
qed

lemmas frame_safe_intros =
  frame_safe_then_do frame_safe_new_frame frame_safe_read_frame frame_safe_return

lemma frame_safe_selectSection_obj: "frame_safe (selectSection_obj a L F)"
  unfolding selectSection_obj_def select_component_obj_def by (intro frame_safe_intros)

lemma frame_safe_sections:
  "frame_safe (model_interpretability_section_obj a)"
  "frame_safe (data_sources_section_obj a)"
  "frame_safe (key_metrics_section_obj a)"
  "frame_safe (real_world_scenario_section_obj a)"
  unfolding model_interpretability_section_obj_def data_sources_section_obj_def
    key_metrics_section_obj_def real_world_scenario_section_obj_def
  by (intro frame_safe_intros frame_safe_selectSection_obj)+

lemma frame_safe_main: "frame_safe (main a)"
  unfolding main_def by (intro frame_safe_intros frame_safe_sections)

lemma frame_safe_script: "frame_safe (script a)"
  unfolding script_def select_component_obj_def by (intro frame_safe_intros)

lemma frame_safe_nth:
  "frame_safe p \<Longrightarrow> a < length st \<Longrightarrow> snd (p st) ! a = st ! a"
  by (auto simp: frame_safe_def prefix_def nth_append dest!: spec [of _ st])

lemma section_obj_run:
  "\<exists>st'. then_do (selectSection_obj a L F) (read_frame g) st =
           ((case selectSection (st ! a) L F of Inl e \<Rightarrow> Inl e | Inr V \<Rightarrow> g V), st') \<and>
         prefix st st'"
  by (auto simp: then_do_def selectSection_obj_def select_component_obj_def new_frame_def
        read_frame_def selectSection_def select_component_def nth_append
        split: sum.splits prod.splits)


lemma prefix_same_object: "prefix st st' \<Longrightarrow> a < length st \<Longrightarrow> a < length st' \<and> st' ! a = st ! a"
  by (auto simp: prefix_def nth_append)

lemma sum_case_same: "(case x of Inl e \<Rightarrow> Inl e | Inr v \<Rightarrow> Inr v) = x"
  by (cases x) simp_all

lemma sections_run:
  "\<exists>st'. model_interpretability_section_obj a st = (model_interpretability_section (st ! a), st') \<and> prefix st st'"
  "\<exists>st'. data_sources_section_obj a st = (data_sources_section (st ! a), st') \<and> prefix st st'"
  "\<exists>st'. key_metrics_section_obj a st = (key_metrics_section (st ! a), st') \<and> prefix st st'"
  "\<exists>st'. real_world_scenario_section_obj a st = (real_world_scenario_section (st ! a), st') \<and> prefix st st'"
proof -
  show "\<exists>st'. model_interpretability_section_obj a st = (model_interpretability_section (st ! a), st') \<and> prefix st st'"
    using section_obj_run [of a "''Model Interpretability''" _ Inr st]
    by (simp add: model_interpretability_section_obj_def model_interpretability_section_def sum_case_same)
  show "\<exists>st'. data_sources_section_obj a st = (data_sources_section (st ! a), st') \<and> prefix st st'"
    using section_obj_run [of a "''Data Sources''" _ pie_chart st]
    by (simp add: data_sources_section_obj_def data_sources_section_def)
  show "\<exists>st'. key_metrics_section_obj a st = (key_metrics_section (st ! a), st') \<and> prefix st st'"
    using section_obj_run [of a "''Key Metrics''" _ Inr st]
    by (simp add: key_metrics_section_obj_def key_metrics_section_def sum_case_same)
  show "\<exists>st'. real_world_scenario_section_obj a st = (real_world_scenario_section (st ! a), st') \<and> prefix st st'"
    using section_obj_run [of a "''Real-World Scenario''" _ scenario_of_view st]
    by (simp add: real_world_scenario_section_obj_def real_world_scenario_section_def)
qed

lemma main_run:
  assumes "a < length st"
  shows "fst (main a st) = render (st ! a)"
proof -
  obtain st1 where 1: "model_interpretability_section_obj a st = (model_interpretability_section (st ! a), st1)"
    and p1: "prefix st st1"
    using sections_run(1) by blast
  have a1: "a < length st1 \<and> st1 ! a = st ! a"
    using prefix_same_object [OF p1 assms] .
  obtain st2 where 2: "data_sources_section_obj a st1 = (data_sources_section (st1 ! a), st2)"
    and p2: "prefix st1 st2"
    using sections_run(2) by blast
  have a2: "a < length st2 \<and> st2 ! a = st ! a"
    using prefix_same_object [OF p2, of a] a1 by simp
  obtain st3 where 3: "key_metrics_section_obj a st2 = (key_metrics_section (st2 ! a), st3)"
    and p3: "prefix st2 st3"
    using sections_run(3) by blast
  have a3: "a < length st3 \<and> st3 ! a = st ! a"
    using prefix_same_object [OF p3, of a] a2 by simp
  obtain st4 where 4: "real_world_scenario_section_obj a st3 = (real_world_scenario_section (st3 ! a), st4)"
    using sections_run(4) by blast
  show ?thesis
    using 1 2 3 4 a1 a2 a3
    by (simp add: main_def render_def then_do_def split: sum.splits)
qed

lemma dashboard_example_shap: "model_interpretability_section dashboard_example = Inr (dashboard_example\<lparr>rows := [[Str ''Model Interpretability'', Str ''Income'', Num (1 / 4), Num (1 / 5),
                 NaN, NaN, NaN, NaN, NaN, NaN, NaN, NaN]]\<rparr>)"
  by (simp add: model_interpretability_section_def dashboard_example_def run_select)

lemma dashboard_example_pie: "data_sources_section dashboard_example = Inr \<lparr>pie_sizes = [Num 40], pie_labels = [Str ''Credit Bureau''], pie_colors = 1\<rparr>"
  by (simp add: data_sources_section_def pie_chart_def pie_of_view_def ax_pie_def
        dashboard_example_def run_select)

lemma dashboard_example_metrics: "key_metrics_section dashboard_example = Inr (dashboard_example\<lparr>rows := [[Str ''Key Metrics'', NaN, NaN, NaN, NaN, NaN, Str ''Random Forest'', Num 92, Num 88,
                 NaN, NaN, NaN]]\<rparr>)"
  by (simp add: key_metrics_section_def dashboard_example_def run_select)

lemma dashboard_example_scenario: "real_world_scenario_section dashboard_example =
   Inr (\<lparr>pt_index = [Str ''Loan-to-Income Ratio''], pt_columns = [Str ''Risk Score Contribution (%)''], pt_values = [[Num 35]]\<rparr>,
     [\<lparr>slider_label = Str ''Loan-to-Income Ratio'', min_value = 0, max_value = 100, slider_value = 35\<rparr>])"
  by (simp add: real_world_scenario_section_def dashboard_example_def scenario_of_view_def run_select
        pivot_first_def field_pairs_def group_keys_def sort_cells_def group_first_def
        sns_heatmap_def seed_slider_def)

text \<open>
  Claim C9. The table loaded at the start is never changed: each of the four sections,
  \<^verbatim>\<open>main\<close> as a whole and the module body of \<^verbatim>\<open>_1.py\<close> leave the frame object at
  \<open>a\<close> as it was (selecting, dropping, pivoting and seeding the sliders build new objects
  or plain values), and what \<^verbatim>\<open>main\<close> shows is what the four sections compute from
  that one table.
\<close>

theorem dataset_never_mutated:
  assumes "a < length st"
  shows "snd (model_interpretability_section_obj a st) ! a = st ! a \<and>
         snd (data_sources_section_obj a st) ! a = st ! a \<and>
         snd (key_metrics_section_obj a st) ! a = st ! a \<and>
         snd (real_world_scenario_section_obj a st) ! a = st ! a \<and>
         snd (main a st) ! a = st ! a \<and>
         fst (main a st) = render (st ! a) \<and>
         snd (script a st) ! a = st ! a"
  using assms frame_safe_nth [OF frame_safe_sections(1), of a st]
    frame_safe_nth [OF frame_safe_sections(2), of a st]
    frame_safe_nth [OF frame_safe_sections(3), of a st]
    frame_safe_nth [OF frame_safe_sections(4), of a st]
    frame_safe_nth [OF frame_safe_main, of a st]
    frame_safe_nth [OF frame_safe_script, of a st]
    main_run [of a st]
  by simp

theorem dataset_never_mutated_witness:
  "(0 :: nat) < length [dashboard_example] \<and>
   snd (main 0 [dashboard_example]) ! 0 = dashboard_example \<and>
   fst (main 0 [dashboard_example]) =
     Inr \<lparr>shap_view = dashboard_example\<lparr>rows := [[Str ''Model Interpretability'', Str ''Income'', Num (1 / 4), Num (1 / 5),
                 NaN, NaN, NaN, NaN, NaN, NaN, NaN, NaN]]\<rparr>,
          sources_pie = \<lparr>pie_sizes = [Num 40], pie_labels = [Str ''Credit Bureau''], pie_colors = 1\<rparr>,
          metrics_view = dashboard_example\<lparr>rows := [[Str ''Key Metrics'', NaN, NaN, NaN, NaN, NaN, Str ''Random Forest'', Num 92, Num 88,
                 NaN, NaN, NaN]]\<rparr>,
          scenario = (\<lparr>pt_index = [Str ''Loan-to-Income Ratio''], pt_columns = [Str ''Risk Score Contribution (%)''], pt_values = [[Num 35]]\<rparr>,
     [\<lparr>slider_label = Str ''Loan-to-Income Ratio'', min_value = 0, max_value = 100, slider_value = 35\<rparr>])\<rparr> \<and>
   snd (script 0 [dashboard_example]) ! 0 = dashboard_example"
  using dataset_never_mutated [of 0 "[dashboard_example]"]
  by (simp add: render_def dashboard_example_shap dashboard_example_pie
        dashboard_example_metrics dashboard_example_scenario)

end
